theory Spec2Isabelle
  imports Main "HOL-Library.Word"
begin

section \<open>The Suna mobile client: the context provider\<close>

text \<open>
  The development embeds the React context provider \<open>SunaProvider\<close> of the Android
  application (\<open>SunaContext.tsx\<close>): its state, \<open>getBaseUrl\<close>, \<open>checkConnection\<close>,
  \<open>newChat\<close>, \<open>addMessage\<close> and \<open>sendMessage\<close>, and the send button of the chat screen.
  The repository holds two versions of the provider; the one embedded is the version that
  sanitises its configuration and bounds every request with an \<open>AbortController\<close>.

  Conventions of the embedding:
  \<^item> a JavaScript string is the list of its UTF-16 code units, so that \<open>length\<close> is
    \<open>String.prototype.length\<close>;
  \<^item> the provider's six \<open>useState\<close> cells are the first six fields of the record
    \<open>client\<close>; a setter call is an update of the record, taken in program order, and a
    functional update \<open>setMessages(prev => ...)\<close> is applied to the current log;
  \<^item> React runs an update function while it renders the provider, not inside the setter
    call: when the function throws, no \<open>try\<close> around the call catches the error, the
    render fails and, no error boundary being there, the tree is unmounted; none of the
    updates queued with it takes effect. A provider is therefore \<open>Mounted\<close> or
    \<open>Unmounted\<close>, in both cases with the state last committed;
  \<^item> a function reads \<open>config\<close>, \<open>isConnected\<close> and \<open>currentChatId\<close> from the closure
    of the render that created it, that is from the state it is started in;
  \<^item> what the outside world answers (every \<open>fetch\<close>, and the id and timestamp of each
    new message) is the record \<open>network\<close>;
  \<^item> a thrown exception is a value \<open>js_error\<close>; a \<open>try\<close> block is a function that
    returns the state reached together with the exception, if one was thrown;
  \<^item> the fields \<open>trace\<close> and \<open>added\<close> of \<open>client\<close> are bookkeeping: the requests
    issued, messages appended and alerts shown, in order, and the number of messages
    created so far.
\<close>

subsection \<open>Strings\<close>

type_synonym jsstring = "16 word list"

definition js :: "string \<Rightarrow> jsstring" where
  "js cs = map (\<lambda>c. of_nat (of_char c)) cs"

text \<open>White space and line terminators of ECMAScript, as removed by \<open>String.prototype.trim\<close>.\<close>

definition isWhiteSpace :: "16 word \<Rightarrow> bool" where
  "isWhiteSpace c \<longleftrightarrow>
     c \<in> set [0x9, 0xA, 0xB, 0xC, 0xD, 0x20, 0xA0, 0x1680, 0x2028, 0x2029,
               0x202F, 0x205F, 0x3000, 0xFEFF]
     \<or> (0x2000 \<le> c \<and> c \<le> 0x200A)"

definition trim :: "jsstring \<Rightarrow> jsstring" where
  "trim s = rev (dropWhile isWhiteSpace (rev (dropWhile isWhiteSpace s)))"

text \<open>Template literals render \<open>null\<close> as the four characters \<open>null\<close>.\<close>

definition render :: "jsstring option \<Rightarrow> jsstring" where
  "render v = (case v of None \<Rightarrow> js ''null'' | Some x \<Rightarrow> x)"

text \<open>\<open>!v\<close> for a value of type \<open>string | null\<close> (or a possibly missing string).\<close>

definition falsy :: "jsstring option \<Rightarrow> bool" where
  "falsy v \<longleftrightarrow> (case v of None \<Rightarrow> True | Some x \<Rightarrow> x = [])"

subsection \<open>Data\<close>

record SunaConfig =
  serverUrl :: jsstring
  mobilePort :: jsstring
  autoConnect :: bool

datatype role = RUser | RAssistant | RSystem | RError

record message =
  msg_id :: jsstring
  role :: role
  content :: jsstring
  timestamp :: jsstring

datatype js_error = JsError (error_name: jsstring) (error_message: jsstring)

definition Error :: "jsstring \<Rightarrow> js_error" where
  "Error m = JsError (js ''Error'') m"

definition TypeError :: js_error where
  "TypeError = JsError (js ''TypeError'') (js ''Cannot read properties of undefined'')"

definition SyntaxError :: js_error where
  "SyntaxError = JsError (js ''SyntaxError'') (js ''JSON Parse error'')"

definition AbortError :: js_error where
  "AbortError = JsError (js ''AbortError'') (js ''Aborted'')"

datatype http_method = GET | POST

record request =
  verb :: http_method
  url :: jsstring
  body :: "(jsstring \<times> jsstring list) option"

datatype event = Fetch request | Appended message | Alerted jsstring jsstring

record client =
  config :: SunaConfig
  isConnected :: bool
  connectionStatus :: jsstring
  messages :: "message list"
  currentChatId :: "jsstring option"
  isLoading :: bool
  trace :: "event list"
  added :: nat

text \<open>
  The body of a response as \<open>response.json()\<close> delivers it: the promise rejects
  (\<open>Unparseable\<close>), or resolves to \<open>null\<close>, or to a value whose fields the client reads.
  The fields read are typed as the client's use of them expects: \<open>status\<close> and \<open>error\<close>
  may be missing, \<open>chat_id\<close> is a string, \<open>messages\<close> may be missing and holds pairs of
  \<open>role\<close> and \<open>content\<close>.
\<close>

datatype 'b json = Unparseable | JsonNull | Json 'b

datatype 'b fetched = Rejects js_error | Responds bool "'b json"

record network =
  health :: "unit fetched"
  sunaHealth :: "jsstring option fetched"
  chatNew :: "jsstring fetched"
  chatSend :: "jsstring option fetched"
  chatMessages :: "(jsstring \<times> jsstring) list option fetched"
  fresh :: "nat \<Rightarrow> jsstring \<times> jsstring"

subsection \<open>\<open>getBaseUrl\<close>\<close>

definition isHostChar :: "16 word \<Rightarrow> bool" where
  "isHostChar c \<longleftrightarrow>
     (0x61 \<le> c \<and> c \<le> 0x7A) \<or> (0x41 \<le> c \<and> c \<le> 0x5A) \<or> (0x30 \<le> c \<and> c \<le> 0x39)
     \<or> c = 0x2E \<or> c = 0x2D"

definition isDigit :: "16 word \<Rightarrow> bool" where
  "isDigit c \<longleftrightarrow> 0x30 \<le> c \<and> c \<le> 0x39"

text \<open>\<open>config.serverUrl.replace(/[^a-zA-Z0-9.-]/g, '')\<close>\<close>

definition cleanServerUrl :: "jsstring \<Rightarrow> jsstring" where
  "cleanServerUrl u = filter isHostChar u"

text \<open>\<open>config.mobilePort.replace(/[^0-9]/g, '')\<close>\<close>

definition cleanPort :: "jsstring \<Rightarrow> jsstring" where
  "cleanPort p = filter isDigit p"

definition getBaseUrl :: "SunaConfig \<Rightarrow> js_error + jsstring" where
  "getBaseUrl cfg =
     (if cleanServerUrl (serverUrl cfg) = [] \<or> cleanPort (mobilePort cfg) = []
      then Inl (Error (js ''Invalid server configuration''))
      else Inr (js ''http://'' @ cleanServerUrl (serverUrl cfg) @ js '':''
                @ cleanPort (mobilePort cfg)))"

subsection \<open>Effects\<close>

definition issue :: "request \<Rightarrow> client \<Rightarrow> client" where
  "issue r s = s\<lparr>trace := trace s @ [Fetch r]\<rparr>"

definition alert :: "jsstring \<Rightarrow> jsstring \<Rightarrow> client \<Rightarrow> client" where
  "alert title text s = s\<lparr>trace := trace s @ [Alerted title text]\<rparr>"

text \<open>
  \<open>addMessage\<close> builds the message (\<open>newMessage\<close>, with the id and the timestamp the
  outside world supplies) and appends it with a functional update. It has no \<open>return\<close>:
  the call yields \<open>undefined\<close>, so the embedding returns the state only.
\<close>

definition newMessage :: "network \<Rightarrow> role \<Rightarrow> jsstring \<Rightarrow> client \<Rightarrow> message" where
  "newMessage net r c s =
     \<lparr>msg_id = fst (fresh net (added s)), role = r, content = c,
      timestamp = snd (fresh net (added s))\<rparr>"

definition addMessage :: "network \<Rightarrow> role \<Rightarrow> jsstring \<Rightarrow> client \<Rightarrow> client" where
  "addMessage net r c s =
     (let m = newMessage net r c s
      in s\<lparr>messages := messages s @ [m], trace := trace s @ [Appended m],
            added := Suc (added s)\<rparr>)"

subsection \<open>\<open>checkConnection\<close>\<close>

text \<open>
  The \<open>try\<close> block of \<open>checkConnection\<close>. Both health checks are inside the same block:
  the first one against \<open>/api/health\<close>, and, when its response is \<open>ok\<close>, the second one
  against \<open>/api/suna/health\<close>, whose body is parsed and whose \<open>status\<close> is compared with
  \<open>'connected'\<close>.
\<close>

definition checkConnection_try :: "network \<Rightarrow> client \<Rightarrow> client \<times> js_error option" where
  "checkConnection_try net s =
     (case getBaseUrl (config s) of
        Inl e \<Rightarrow> (s, Some e)
      | Inr base \<Rightarrow>
          let s1 = issue \<lparr>verb = GET, url = base @ js ''/api/health'', body = None\<rparr> s in
          (case health net of
             Rejects e \<Rightarrow> (s1, Some e)
           | Responds ok b \<Rightarrow>
               if ok then
                 let s2 = s1\<lparr>isConnected := True, connectionStatus := js ''Connected''\<rparr> in
                 (case getBaseUrl (config s) of
                    Inl e \<Rightarrow> (s2, Some e)
                  | Inr base2 \<Rightarrow>
                      let s3 = issue \<lparr>verb = GET, url = base2 @ js ''/api/suna/health'',
                                      body = None\<rparr> s2 in
                      (case sunaHealth net of
                         Rejects e \<Rightarrow> (s3, Some e)
                       | Responds ok2 sunaData \<Rightarrow>
                           (case sunaData of
                              Unparseable \<Rightarrow> (s3, Some SyntaxError)
                            | JsonNull \<Rightarrow> (s3, Some TypeError)
                            | Json status \<Rightarrow>
                                if status = Some (js ''connected'')
                                then (s3\<lparr>connectionStatus := js ''Connected to Suna''\<rparr>, None)
                                else (s3\<lparr>connectionStatus :=
                                            js ''Mobile connected, Suna offline''\<rparr>, None))))
               else (s1, Some (Error (js ''Server not responding'')))))"

definition checkConnection :: "network \<Rightarrow> client \<Rightarrow> client" where
  "checkConnection net s =
     (case checkConnection_try net (s\<lparr>connectionStatus := js ''Connecting...''\<rparr>) of
        (s', None) \<Rightarrow> s'
      | (s', Some e) \<Rightarrow> s'\<lparr>isConnected := False, connectionStatus := js ''Disconnected''\<rparr>)"

subsection \<open>\<open>newChat\<close>\<close>

definition newChat_try :: "network \<Rightarrow> client \<Rightarrow> client \<times> js_error option" where
  "newChat_try net s =
     (case getBaseUrl (config s) of
        Inl e \<Rightarrow> (s, Some e)
      | Inr base \<Rightarrow>
          let s1 = issue \<lparr>verb = POST, url = base @ js ''/api/chat/new'', body = None\<rparr> s in
          (case chatNew net of
             Rejects e \<Rightarrow> (s1, Some e)
           | Responds ok b \<Rightarrow>
               if ok then
                 (case b of
                    Unparseable \<Rightarrow> (s1, Some SyntaxError)
                  | JsonNull \<Rightarrow> (s1, Some TypeError)
                  | Json chat_id \<Rightarrow>
                      (addMessage net RSystem (js ''New conversation started!'')
                         (s1\<lparr>currentChatId := Some chat_id, messages := []\<rparr>), None))
               else (s1, Some (Error (js ''Failed to start new chat'')))))"

definition newChat :: "network \<Rightarrow> client \<Rightarrow> client" where
  "newChat net s =
     (case newChat_try net s of
        (s', None) \<Rightarrow> s'
      | (s', Some e) \<Rightarrow> alert (js ''Error'') (js ''Failed to start new chat'') s')"

subsection \<open>\<open>sendMessage\<close>\<close>

text \<open>
  What the callback given to \<open>setTimeout\<close> captures: \<open>loadingId\<close>, the value of the call
  \<open>addMessage('system', 'Suna is thinking...')\<close>, and the \<open>currentChatId\<close> and \<open>config\<close>
  of the closure of \<open>sendMessage\<close>.
\<close>

record timer =
  loadingId :: "jsstring option"
  timer_chat :: "jsstring option"
  timer_config :: SunaConfig

text \<open>
  The functional update \<open>prev => prev.filter(msg => msg.id !== loadingId.toString())\<close>.
  The test is evaluated once for every message of the log; with \<open>loadingId\<close> undefined
  \<open>loadingId.toString()\<close> throws a \<open>TypeError\<close> at the first message (\<open>Inl\<close>: the update
  function throws).
\<close>

definition removeLoading :: "jsstring option \<Rightarrow> message list \<Rightarrow> js_error + message list" where
  "removeLoading lid prev =
     (case lid of
        None \<Rightarrow> if prev = [] then Inr [] else Inl TypeError
      | Some l \<Rightarrow> Inr (filter (\<lambda>msg. msg_id msg \<noteq> l) prev))"

text \<open>\<open>messagesData.messages?.[messagesData.messages.length - 1]\<close>\<close>

definition lastMessage :: "(jsstring \<times> jsstring) list option \<Rightarrow> (jsstring \<times> jsstring) option" where
  "lastMessage ms =
     (case ms of None \<Rightarrow> None | Some l \<Rightarrow> if l = [] then None else Some (last l))"

text \<open>
  How the \<open>try\<close> block of the timer callback ends: it runs to its end, or it throws and
  the handler takes over, or the update function it has queued throws when the provider
  renders.
\<close>

datatype completion = Completed | Threw js_error | RenderFailed js_error

datatype provider = is_Mounted: Mounted (committed: client) | Unmounted (committed: client)

text \<open>
  The \<open>try\<close> block of the timer callback, run two seconds after an accepted send. When
  the update function of \<open>setMessages\<close> throws, the state returned is the one before the
  callback's updates (with the request it has issued on record).
\<close>

definition timer_try :: "network \<Rightarrow> timer \<Rightarrow> client \<Rightarrow> client \<times> completion" where
  "timer_try net t s =
     (case getBaseUrl (timer_config t) of
        Inl e \<Rightarrow> (s, Threw e)
      | Inr base \<Rightarrow>
          let s1 = issue \<lparr>verb = GET,
                          url = base @ js ''/api/chat/'' @ render (timer_chat t) @ js ''/messages'',
                          body = None\<rparr> s in
          (case chatMessages net of
             Rejects e \<Rightarrow> (s1, Threw e)
           | Responds ok messagesData \<Rightarrow>
               (case messagesData of
                  Unparseable \<Rightarrow> (s1, Threw SyntaxError)
                | _ \<Rightarrow>
                    (case removeLoading (loadingId t) (messages s1) of
                       Inl e \<Rightarrow> (s1, RenderFailed e)
                     | Inr kept \<Rightarrow>
                         let s2 = s1\<lparr>messages := kept\<rparr> in
                         (case messagesData of
                            Json ms \<Rightarrow>
                              (case lastMessage ms of
                                 Some (r, c) \<Rightarrow>
                                   if r = js ''assistant''
                                   then (addMessage net RAssistant c s2, Completed)
                                   else (addMessage net RAssistant
                                           (js ''Response received from Suna.'') s2, Completed)
                               | None \<Rightarrow>
                                   (addMessage net RAssistant
                                      (js ''Response received from Suna.'') s2, Completed))
                          | _ \<Rightarrow> (s2, Threw TypeError))))))"

text \<open>
  The timer callback: the \<open>try\<close> block, its handler, and \<open>setIsLoading(false)\<close> after
  both. After a failed render nothing of this is committed and the provider is gone.
\<close>

definition timer_callback :: "network \<Rightarrow> timer \<Rightarrow> client \<Rightarrow> provider" where
  "timer_callback net t s =
     (case timer_try net t s of
        (s', Completed) \<Rightarrow> Mounted (s'\<lparr>isLoading := False\<rparr>)
      | (s', Threw e) \<Rightarrow>
          Mounted
            ((if error_name e = js ''AbortError''
              then addMessage net RError (js ''Response timed out'') s'
              else addMessage net RError (js ''Failed to get response'') s')
               \<lparr>isLoading := False\<rparr>)
      | (s', RenderFailed e) \<Rightarrow> Unmounted s')"

text \<open>
  The \<open>try\<close> block of \<open>sendMessage\<close>; the third component is the timer it has set, if any.
  The request goes to the \<open>currentChatId\<close> of the closure (\<open>cid\<close>).
\<close>

definition sendMessage_try ::
  "network \<Rightarrow> jsstring \<Rightarrow> jsstring list option \<Rightarrow> SunaConfig \<Rightarrow> jsstring option \<Rightarrow> client
     \<Rightarrow> client \<times> js_error option \<times> timer option" where
  "sendMessage_try net message files cfg cid s =
     (case getBaseUrl cfg of
        Inl e \<Rightarrow> (s, Some e, None)
      | Inr base \<Rightarrow>
          let s1 = issue \<lparr>verb = POST,
                          url = base @ js ''/api/chat/'' @ render cid @ js ''/send'',
                          body = Some (trim message,
                                       (case files of None \<Rightarrow> [] | Some fs \<Rightarrow> fs))\<rparr> s in
          (case chatSend net of
             Rejects e \<Rightarrow> (s1, Some e, None)
           | Responds ok b \<Rightarrow>
               if ok then
                 (addMessage net RSystem (js ''Suna is thinking...'') s1, None,
                  Some \<lparr>loadingId = None, timer_chat = cid, timer_config = cfg\<rparr>)
               else
                 (case b of
                    JsonNull \<Rightarrow> (s1, Some TypeError, None)
                  | Unparseable \<Rightarrow>
                      ((addMessage net RError (js ''Server error'') s1)\<lparr>isLoading := False\<rparr>,
                       None, None)
                  | Json err \<Rightarrow>
                      ((addMessage net RError
                          (if falsy err then js ''Failed to send message'' else the err) s1)
                         \<lparr>isLoading := False\<rparr>, None, None))))"

definition sendMessage ::
  "network \<Rightarrow> jsstring \<Rightarrow> jsstring list option \<Rightarrow> client \<Rightarrow> client \<times> timer option" where
  "sendMessage net message files s =
     (if \<not> isConnected s
      then (alert (js ''Error'') (js ''Not connected to Suna Desktop'') s, None)
      else if message = [] \<or> length (trim message) = 0
      then (alert (js ''Error'') (js ''Message cannot be empty'') s, None)
      else if length message > 10000
      then (alert (js ''Error'') (js ''Message too long (max 10,000 characters)'') s, None)
      else
        let s1 = (if falsy (currentChatId s) then newChat net s else s);
            s2 = addMessage net RUser message s1;
            s3 = s2\<lparr>isLoading := True\<rparr>
        in (case sendMessage_try net message files (config s) (currentChatId s) s3 of
              (s4, None, t) \<Rightarrow> (s4, t)
            | (s4, Some e, t) \<Rightarrow>
                ((if error_name e = js ''AbortError''
                  then addMessage net RError (js ''Request timed out'') s4
                  else addMessage net RError (js ''Failed to send message'') s4)
                   \<lparr>isLoading := False\<rparr>, None)))"

text \<open>One dispatch: \<open>sendMessage\<close>, and then the timer callback if a timer was set.\<close>

definition dispatch :: "network \<Rightarrow> jsstring \<Rightarrow> jsstring list option \<Rightarrow> client \<Rightarrow> provider" where
  "dispatch net message files s =
     (case sendMessage net message files s of
        (s', None) \<Rightarrow> Mounted s'
      | (s', Some t) \<Rightarrow> timer_callback net t s')"

subsection \<open>The send button of the chat screen\<close>

text \<open>\<open>disabled={!inputText.trim() || isLoading || !isConnected}\<close>\<close>

definition sendButtonDisabled :: "jsstring \<Rightarrow> client \<Rightarrow> bool" where
  "sendButtonDisabled inputText s \<longleftrightarrow> trim inputText = [] \<or> isLoading s \<or> \<not> isConnected s"

definition handleSend :: "network \<Rightarrow> jsstring \<Rightarrow> client \<Rightarrow> client \<times> timer option" where
  "handleSend net inputText s =
     (if trim inputText = [] then (s, None)
      else if \<not> isConnected s
      then (alert (js ''Error'') (js ''Not connected to Suna Desktop. Check your settings.'') s,
            None)
      else sendMessage net (trim inputText) None s)"

text \<open>A press on the button runs \<open>handleSend\<close> unless the button is disabled.\<close>

definition pressSend :: "network \<Rightarrow> jsstring \<Rightarrow> client \<Rightarrow> client \<times> timer option" where
  "pressSend net inputText s =
     (if sendButtonDisabled inputText s then (s, None) else handleSend net inputText s)"

subsection \<open>Initial state and sample inputs\<close>

definition defaultConfig :: SunaConfig where
  "defaultConfig = \<lparr>serverUrl = js ''192.168.1.100'', mobilePort = js ''5000'',
                     autoConnect = True\<rparr>"

text \<open>The initial values of the \<open>useState\<close> cells.\<close>

definition initial :: client where
  "initial = \<lparr>config = defaultConfig, isConnected = False,
               connectionStatus = js ''Checking...'', messages = [], currentChatId = None,
               isLoading = False, trace = [], added = 0\<rparr>"

text \<open>
  A server that answers every request well, and numbers the messages; the sample states
  are the initial state after a successful probe, and after a first session was created.
\<close>

definition sample_net :: network where
  "sample_net = \<lparr>health = Responds True (Json ()),
                  sunaHealth = Responds True (Json (Some (js ''connected''))),
                  chatNew = Responds True (Json (js ''c1'')),
                  chatSend = Responds True (Json None),
                  chatMessages = Responds True (Json (Some [(js ''assistant'', js ''hello'')])),
                  fresh = (\<lambda>n. ([of_nat n], js ''t''))\<rparr>"

definition sample_connected :: client where
  "sample_connected = checkConnection sample_net initial"

definition sample_session :: client where
  "sample_session = newChat sample_net sample_connected"

text \<open>The state while a first message is in flight: its send was accepted, the timer is set.\<close>

definition sample_busy :: client where
  "sample_busy = fst (sendMessage sample_net (js ''first'') None sample_session)"

section \<open>Properties\<close>

subsection \<open>Evaluation of the sample inputs\<close>

lemmas effect_defs = issue_def alert_def addMessage_def newMessage_def

lemma getBaseUrl_default: "getBaseUrl defaultConfig = Inr (js ''http://192.168.1.100:5000'')"
  by (simp add: getBaseUrl_def defaultConfig_def cleanServerUrl_def cleanPort_def js_def
      isHostChar_def isDigit_def)

lemma error_names:
  "error_name AbortError = js ''AbortError''"
  "error_name TypeError \<noteq> js ''AbortError''"
  "error_name SyntaxError \<noteq> js ''AbortError''"
  "error_name (Error x) \<noteq> js ''AbortError''"
  by (simp_all add: AbortError_def TypeError_def SyntaxError_def Error_def js_def)

lemma sample_connected_eval:
  "sample_connected =
     \<lparr>config = defaultConfig, isConnected = True, connectionStatus = js ''Connected to Suna'',
      messages = [], currentChatId = None, isLoading = False,
      trace = [Fetch \<lparr>verb = GET, url = js ''http://192.168.1.100:5000'' @ js ''/api/health'',
                      body = None\<rparr>,
               Fetch \<lparr>verb = GET,
                      url = js ''http://192.168.1.100:5000'' @ js ''/api/suna/health'',
                      body = None\<rparr>],
      added = 0\<rparr>"
  by (simp add: sample_connected_def checkConnection_def checkConnection_try_def initial_def
      sample_net_def getBaseUrl_default effect_defs Let_def)

lemma sample_session_eval:
  "sample_session =
     \<lparr>config = defaultConfig, isConnected = True, connectionStatus = js ''Connected to Suna'',
      messages = [\<lparr>msg_id = [0], role = RSystem, content = js ''New conversation started!'',
                   timestamp = js ''t''\<rparr>],
      currentChatId = Some (js ''c1''), isLoading = False,
      trace = trace sample_connected @
              [Fetch \<lparr>verb = POST, url = js ''http://192.168.1.100:5000'' @ js ''/api/chat/new'',
                      body = None\<rparr>,
               Appended \<lparr>msg_id = [0], role = RSystem, content = js ''New conversation started!'',
                         timestamp = js ''t''\<rparr>],
      added = 1\<rparr>"
  by (simp add: sample_session_def sample_connected_eval newChat_def newChat_try_def
      sample_net_def getBaseUrl_default effect_defs Let_def)

lemma trim_samples:
  "trim (js ''first'') = js ''first''"
  "trim (js ''second'') = js ''second''"
  "trim (js ''hello'') = js ''hello''"
  "trim (js ''hi'') = js ''hi''"
  "trim (js '' hi '') = js ''hi''"
  by (simp_all add: trim_def js_def isWhiteSpace_def)

lemma js_facts:
  "length (js cs) = length cs" "js cs = [] \<longleftrightarrow> cs = []" "js '' hi '' \<noteq> js ''hi''"
  by (simp_all add: js_def)

lemmas run_defs = sendMessage_def sendMessage_try_def timer_callback_def timer_try_def
  dispatch_def newChat_def newChat_try_def effect_defs removeLoading_def lastMessage_def
  render_def falsy_def Let_def error_names getBaseUrl_default trim_samples js_facts
  sample_net_def

lemma sample_busy_eval:
  "sample_busy =
     sample_session\<lparr>
       messages := messages sample_session @
         [\<lparr>msg_id = [1], role = RUser, content = js ''first'', timestamp = js ''t''\<rparr>,
          \<lparr>msg_id = [2], role = RSystem, content = js ''Suna is thinking...'',
            timestamp = js ''t''\<rparr>],
       isLoading := True,
       trace := trace sample_session @
         [Appended \<lparr>msg_id = [1], role = RUser, content = js ''first'', timestamp = js ''t''\<rparr>,
          Fetch \<lparr>verb = POST,
                 url = js ''http://192.168.1.100:5000'' @ js ''/api/chat/'' @ js ''c1'' @ js ''/send'',
                 body = Some (js ''first'', [])\<rparr>,
          Appended \<lparr>msg_id = [2], role = RSystem, content = js ''Suna is thinking...'',
                    timestamp = js ''t''\<rparr>],
       added := 3\<rparr>"
  by (simp add: sample_busy_def sample_session_eval run_defs)

subsection \<open>What each operation adds to the log and to the record of events\<close>

lemma addMessage_isLoading:
  "addMessage net r c (s\<lparr>isLoading := b\<rparr>) = (addMessage net r c s)\<lparr>isLoading := b\<rparr>"
  by (simp add: addMessage_def newMessage_def Let_def)

lemma newChat_isLoading:
  "newChat net (s\<lparr>isLoading := b\<rparr>) = (newChat net s)\<lparr>isLoading := b\<rparr>"
  by (simp add: newChat_def newChat_try_def effect_defs Let_def
      split: sum.splits fetched.splits json.splits)

lemma sendMessage_isLoading:
  "sendMessage net m f (s\<lparr>isLoading := b\<rparr>) =
     (if \<not> isConnected s \<or> trim m = [] \<or> length m > 10000
      then ((fst (sendMessage net m f s))\<lparr>isLoading := b\<rparr>, None)
      else sendMessage net m f s)"
  by (simp add: sendMessage_def newChat_isLoading addMessage_isLoading alert_def Let_def trim_def)

lemma addMessage_obs:
  "trace (addMessage net r c s) = trace s @ [Appended (newMessage net r c s)]"
  "messages (addMessage net r c s) = messages s @ [newMessage net r c s]"
  by (simp_all add: addMessage_def Let_def)

lemma newChat_unsuccessful:
  "chatNew net = Rejects e \<or> chatNew net = Responds False b \<Longrightarrow>
   getBaseUrl (config s) = Inr base \<Longrightarrow>
   newChat net s =
     s\<lparr>trace := trace s @ [Fetch \<lparr>verb = POST, url = base @ js ''/api/chat/new'', body = None\<rparr>,
                            Alerted (js ''Error'') (js ''Failed to start new chat'')]\<rparr>"
  by (auto simp add: newChat_def newChat_try_def effect_defs Let_def)

lemma newChat_trace:
  "getBaseUrl (config s) = Inr base \<Longrightarrow>
   \<exists>mid. trace (newChat net s) =
           trace s @ Fetch \<lparr>verb = POST, url = base @ js ''/api/chat/new'', body = None\<rparr> # mid
         \<and> (\<forall>r. Fetch r \<notin> set mid)"
  by (auto simp add: newChat_def newChat_try_def effect_defs Let_def
      split: fetched.splits json.splits)


lemma sendMessage_try_obs:
  "\<exists>rest tail.
     trace (fst (sendMessage_try net m f cfg cid s)) =
       trace s @ (case getBaseUrl cfg of Inl x \<Rightarrow> []
                  | Inr base \<Rightarrow> [Fetch \<lparr>verb = POST,
                        url = base @ js ''/api/chat/'' @ render cid @ js ''/send'',
                        body = Some (trim m, (case f of None \<Rightarrow> [] | Some fs \<Rightarrow> fs))\<rparr>]) @ rest
     \<and> messages (fst (sendMessage_try net m f cfg cid s)) = messages s @ tail"
  by (simp add: sendMessage_try_def issue_def addMessage_obs Let_def
      split: sum.splits fetched.splits json.splits)

lemma sendMessage_try_timer:
  "sendMessage_try net m f cfg cid s = (s', x, Some t) \<Longrightarrow> loadingId t = None"
  by (auto simp add: sendMessage_try_def Let_def
      split: sum.splits fetched.splits json.splits if_splits)

lemma sendMessage_timer:
  "snd (sendMessage net m f s) = Some t \<Longrightarrow> loadingId t = None"
  by (auto simp add: sendMessage_def Let_def dest: sendMessage_try_timer
      split: if_splits prod.splits option.splits)

lemma removeLoading_None: "removeLoading None prev = Inr kept \<Longrightarrow> kept = prev"
  by (auto simp add: removeLoading_def split: if_splits)

text \<open>
  The timer callback of an accepted send never shortens the log: the timer's \<open>loadingId\<close>
  is undefined, so the functional update that should remove the placeholder is not
  reached, or throws at the first message (and the provider is unmounted with the log
  as it was), or finds the log empty; every other branch only appends.
\<close>

lemma timer_callback_appends:
  "loadingId t = None \<Longrightarrow>
   \<exists>tail. messages (committed (timer_callback net t s)) = messages s @ tail"
  by (auto simp add: timer_callback_def timer_try_def issue_def addMessage_obs Let_def
      dest: removeLoading_None
      split: sum.splits fetched.splits json.splits option.splits prod.splits if_splits
        completion.splits)


text \<open>
  A fetch that delivers a body reaches the removal of the placeholder: on a log that is
  not empty its update function throws, the render fails, and the provider is unmounted
  with the log and the busy flag as they were.
\<close>

lemma timer_callback_resolved:
  assumes "loadingId t = None" and "messages s \<noteq> []"
    and "getBaseUrl (timer_config t) = Inr base"
    and "chatMessages net = Responds ok b" and "b \<noteq> Unparseable"
  shows "timer_callback net t s =
           Unmounted (issue \<lparr>verb = GET,
                url = base @ js ''/api/chat/'' @ render (timer_chat t) @ js ''/messages'',
                body = None\<rparr> s)"
  using assms
  by (cases b) (simp_all add: timer_callback_def timer_try_def removeLoading_def issue_def Let_def)

lemma sendMessage_obs:
  assumes "isConnected s" and "trim m \<noteq> []" and "length m \<le> 10000"
  shows "\<exists>rest tail.
     trace (fst (sendMessage net m f s)) =
       trace (if falsy (currentChatId s) then newChat net s else s)
       @ Appended (newMessage net RUser m (if falsy (currentChatId s) then newChat net s else s))
       # (case getBaseUrl (config s) of Inl x \<Rightarrow> []
          | Inr base \<Rightarrow> [Fetch \<lparr>verb = POST,
                url = base @ js ''/api/chat/'' @ render (currentChatId s) @ js ''/send'',
                body = Some (trim m, (case f of None \<Rightarrow> [] | Some fs \<Rightarrow> fs))\<rparr>]) @ rest
     \<and> messages (fst (sendMessage net m f s)) =
       messages (if falsy (currentChatId s) then newChat net s else s)
       @ newMessage net RUser m (if falsy (currentChatId s) then newChat net s else s) # tail"
proof -
  define s1 where "s1 = (if falsy (currentChatId s) then newChat net s else s)"
  define s3 where "s3 = (addMessage net RUser m s1)\<lparr>isLoading := True\<rparr>"
  define r where "r = sendMessage_try net m f (config s) (currentChatId s) s3"
  have nonempty: "m \<noteq> []" using assms(2) by (auto simp add: trim_def)
  obtain rest tail where
    tr: "trace (fst r) = trace s3 @ (case getBaseUrl (config s) of Inl x \<Rightarrow> []
          | Inr base \<Rightarrow> [Fetch \<lparr>verb = POST,
                url = base @ js ''/api/chat/'' @ render (currentChatId s) @ js ''/send'',
                body = Some (trim m, (case f of None \<Rightarrow> [] | Some fs \<Rightarrow> fs))\<rparr>]) @ rest"
    and ms: "messages (fst r) = messages s3 @ tail"
    unfolding r_def using sendMessage_try_obs [of net m f "config s" "currentChatId s" s3] by blast
  have s3t: "trace s3 = trace s1 @ [Appended (newMessage net RUser m s1)]"
    and s3m: "messages s3 = messages s1 @ [newMessage net RUser m s1]"
    by (simp_all add: s3_def addMessage_obs)
  have res: "sendMessage net m f s =
     (case r of (s4, None, t) \<Rightarrow> (s4, t)
      | (s4, Some e, t) \<Rightarrow>
          ((if error_name e = js ''AbortError''
            then addMessage net RError (js ''Request timed out'') s4
            else addMessage net RError (js ''Failed to send message'') s4)
             \<lparr>isLoading := False\<rparr>, None))"
    using assms nonempty by (simp add: sendMessage_def r_def s3_def s1_def Let_def)
  obtain s4 x t where r: "r = (s4, x, t)" by (cases r) auto
  show ?thesis
  proof (cases x)
    case None
    with r res tr ms s3t s3m show ?thesis by (simp add: s1_def)
  next
    case (Some e)
    with r res tr ms s3t s3m show ?thesis by (simp add: s1_def addMessage_obs)
  qed
qed

lemma dispatch_appends:
  "\<exists>tail. messages (committed (dispatch net m f s)) =
          messages (fst (sendMessage net m f s)) @ tail"
proof (cases "sendMessage net m f s")
  case (Pair s' t)
  show ?thesis
  proof (cases t)
    case None
    with Pair show ?thesis by (simp add: dispatch_def)
  next
    case (Some tm)
    with Pair have "loadingId tm = None" using sendMessage_timer [of net m f s tm] by simp
    from timer_callback_appends [OF this, of net s'] Pair Some show ?thesis
      by (simp add: dispatch_def)
  qed
qed

lemma sendMessage_try_placeholder:
  "sendMessage_try net m f cfg cid s = (s', x, Some t) \<Longrightarrow>
   \<exists>p. messages s' = messages s @ [p] \<and> role p = RSystem \<and> content p = js ''Suna is thinking...''"
  by (auto simp add: sendMessage_try_def effect_defs Let_def
      split: sum.splits fetched.splits json.splits if_splits)

lemma sendMessage_timer_guards:
  "snd (sendMessage net m f s) = Some t \<Longrightarrow> isConnected s \<and> trim m \<noteq> [] \<and> length m \<le> 10000"
  by (auto simp add: sendMessage_def trim_def split: if_splits)

lemma sendMessage_passes:
  assumes "isConnected s" and "trim m \<noteq> []" and "length m \<le> 10000"
  shows "sendMessage net m f s =
     (case sendMessage_try net m f (config s) (currentChatId s)
             ((addMessage net RUser m (if falsy (currentChatId s) then newChat net s else s))
                \<lparr>isLoading := True\<rparr>) of
        (s4, None, t) \<Rightarrow> (s4, t)
      | (s4, Some e, t) \<Rightarrow>
          ((if error_name e = js ''AbortError''
            then addMessage net RError (js ''Request timed out'') s4
            else addMessage net RError (js ''Failed to send message'') s4)
             \<lparr>isLoading := False\<rparr>, None))"
proof -
  have "m \<noteq> []" using assms(2) by (auto simp add: trim_def)
  with assms show ?thesis by (simp add: sendMessage_def Let_def)
qed

text \<open>
  Whenever a send is accepted, the placeholder is the last message of the log when
  \<open>sendMessage\<close> returns, and it is still in the log, at the same place, when the
  dispatch ends, whatever the fetch of the messages delivers.
\<close>

lemma placeholder_never_removed:
  assumes "snd (sendMessage net m f s) = Some t"
  shows "\<exists>pre p tail. role p = RSystem \<and> content p = js ''Suna is thinking...'' \<and>
           messages (fst (sendMessage net m f s)) = pre @ [p] \<and>
           messages (committed (dispatch net m f s)) = pre @ [p] @ tail"
proof -
  define s3 where "s3 = (addMessage net RUser m (if falsy (currentChatId s) then newChat net s else s))
                \<lparr>isLoading := True\<rparr>"
  define r where "r = sendMessage_try net m f (config s) (currentChatId s) s3"
  from sendMessage_timer_guards [OF assms]
  have res: "sendMessage net m f s =
     (case r of (s4, None, t) \<Rightarrow> (s4, t)
      | (s4, Some e, t) \<Rightarrow>
          ((if error_name e = js ''AbortError''
            then addMessage net RError (js ''Request timed out'') s4
            else addMessage net RError (js ''Failed to send message'') s4)
             \<lparr>isLoading := False\<rparr>, None))"
    unfolding r_def s3_def by (simp add: sendMessage_passes)
  obtain s4 x t' where r: "r = (s4, x, t')" by (cases r) auto
  from res r assms have x: "x = None" and t: "t' = Some t" and f: "fst (sendMessage net m f s) = s4"
    by (cases x; simp)+
  from r x t have "sendMessage_try net m f (config s) (currentChatId s) s3 = (s4, None, Some t)"
    by (simp add: r_def)
  from sendMessage_try_placeholder [OF this] obtain p where
    p: "messages s4 = messages s3 @ [p]" "role p = RSystem" "content p = js ''Suna is thinking...''"
    by blast
  obtain tail where
    "messages (committed (dispatch net m f s)) = messages (fst (sendMessage net m f s)) @ tail"
    using dispatch_appends by blast
  with p f show ?thesis by auto
qed



text \<open>The chat screen hands \<open>sendMessage\<close> the trimmed text of its input field.\<close>

lemma handleSend_trims:
  "isConnected s \<Longrightarrow> trim inputText \<noteq> [] \<Longrightarrow>
   handleSend net inputText s = sendMessage net (trim inputText) None s"
  by (simp add: handleSend_def)

subsection \<open>Configuration\<close>

text \<open>
  Claim C9. The two sanitisation steps of \<open>getBaseUrl\<close> (keep only letters, digits, dot and
  hyphen of the host; keep only digits of the port) are idempotent: sanitising a sanitised
  string gives the same string, and \<open>getBaseUrl\<close> gives the same result on a configuration
  and on its sanitised form.
\<close>

theorem sanitize_idempotent:
  "cleanServerUrl (cleanServerUrl u) = cleanServerUrl u \<and>
   cleanPort (cleanPort p) = cleanPort p \<and>
   getBaseUrl (cfg\<lparr>serverUrl := cleanServerUrl (serverUrl cfg),
                    mobilePort := cleanPort (mobilePort cfg)\<rparr>) = getBaseUrl cfg"
  by (simp add: cleanServerUrl_def cleanPort_def getBaseUrl_def)

subsection \<open>The probe\<close>

text \<open>
  Claim C8. In a probe whose transport health check is answered with a 2xx response, and
  whose agent-health check delivers a body, the client ends connected, with the status
  \<open>Connected to Suna\<close> when the \<open>status\<close> field of the body is \<open>connected\<close> and
  \<open>Mobile connected, Suna offline\<close> for every other value (a missing field included).
\<close>

theorem checkConnection_agent_status:
  assumes "getBaseUrl (config s) = Inr base" and "health net = Responds True hb"
    and "sunaHealth net = Responds ok (Json status)"
  shows "isConnected (checkConnection net s) \<and>
         connectionStatus (checkConnection net s) =
           (if status = Some (js ''connected'') then js ''Connected to Suna''
            else js ''Mobile connected, Suna offline'')"
  using assms
  by (simp add: checkConnection_def checkConnection_try_def effect_defs Let_def)

theorem checkConnection_agent_status_witness:
  "getBaseUrl (config initial) = Inr (js ''http://192.168.1.100:5000'') \<and>
   health (sample_net\<lparr>sunaHealth := Responds True (Json (Some (js ''starting'')))\<rparr>)
     = Responds True (Json ()) \<and>
   isConnected (checkConnection
      (sample_net\<lparr>sunaHealth := Responds True (Json (Some (js ''starting'')))\<rparr>) initial) \<and>
   connectionStatus (checkConnection
      (sample_net\<lparr>sunaHealth := Responds True (Json (Some (js ''starting'')))\<rparr>) initial)
     = js ''Mobile connected, Suna offline''"
proof -
  have b: "getBaseUrl (config initial) = Inr (js ''http://192.168.1.100:5000'')"
    by (simp add: initial_def getBaseUrl_default)
  have h: "health (sample_net\<lparr>sunaHealth := Responds True (Json (Some (js ''starting'')))\<rparr>)
             = Responds True (Json ())"
    by (simp add: sample_net_def)
  have a: "sunaHealth (sample_net\<lparr>sunaHealth := Responds True (Json (Some (js ''starting'')))\<rparr>)
             = Responds True (Json (Some (js ''starting'')))"
    by simp
  have n: "js ''starting'' \<noteq> js ''connected''" by (simp add: js_def)
  from checkConnection_agent_status [OF b h a] b h n show ?thesis by simp
qed

text \<open>
  Claim C4, as stated (a fault of the agent-health check never brings the result below
  \<open>Mobile connected, Suna offline\<close>), fails: both checks are in one \<open>try\<close> block, whose
  handler sets \<open>isConnected\<close> to false. With the transport check answered 2xx and the
  agent-health check timing out, the probe ends \<open>Disconnected\<close>.
\<close>

theorem checkConnection_agent_timeout:
  "health (sample_net\<lparr>sunaHealth := Rejects AbortError\<rparr>) = Responds True (Json ()) \<and>
   sunaHealth (sample_net\<lparr>sunaHealth := Rejects AbortError\<rparr>) = Rejects AbortError \<and>
   \<not> isConnected (checkConnection (sample_net\<lparr>sunaHealth := Rejects AbortError\<rparr>) initial) \<and>
   connectionStatus (checkConnection (sample_net\<lparr>sunaHealth := Rejects AbortError\<rparr>) initial)
     = js ''Disconnected''"
  by (simp add: checkConnection_def checkConnection_try_def initial_def
      sample_net_def getBaseUrl_default effect_defs Let_def)

text \<open>
  Claim C4, amended. In a probe whose transport health check is answered with a 2xx
  response, every fault of the agent-health check (the fetch is rejected, by a timeout or
  by a transport error, or the body cannot be parsed, or the body is \<open>null\<close>) ends the
  probe with \<open>isConnected\<close> false and the status \<open>Disconnected\<close>.
\<close>

theorem checkConnection_agent_fault:
  assumes "getBaseUrl (config s) = Inr base" and "health net = Responds True hb"
    and "sunaHealth net = Rejects e \<or> sunaHealth net = Responds ok Unparseable
         \<or> sunaHealth net = Responds ok JsonNull"
  shows "\<not> isConnected (checkConnection net s) \<and>
         connectionStatus (checkConnection net s) = js ''Disconnected''"
  using assms
  by (auto simp add: checkConnection_def checkConnection_try_def effect_defs Let_def)

theorem checkConnection_agent_fault_witness:
  "getBaseUrl (config initial) = Inr (js ''http://192.168.1.100:5000'') \<and>
   health (sample_net\<lparr>sunaHealth := Responds True Unparseable\<rparr>) = Responds True (Json ()) \<and>
   \<not> isConnected (checkConnection (sample_net\<lparr>sunaHealth := Responds True Unparseable\<rparr>) initial) \<and>
   connectionStatus (checkConnection (sample_net\<lparr>sunaHealth := Responds True Unparseable\<rparr>) initial)
     = js ''Disconnected''"
proof -
  have b: "getBaseUrl (config initial) = Inr (js ''http://192.168.1.100:5000'')"
    by (simp add: initial_def getBaseUrl_default)
  have h: "health (sample_net\<lparr>sunaHealth := Responds True Unparseable\<rparr>) = Responds True (Json ())"
    by (simp add: sample_net_def)
  have a: "sunaHealth (sample_net\<lparr>sunaHealth := Responds True Unparseable\<rparr>) = Rejects AbortError
           \<or> sunaHealth (sample_net\<lparr>sunaHealth := Responds True Unparseable\<rparr>)
               = Responds True Unparseable
           \<or> sunaHealth (sample_net\<lparr>sunaHealth := Responds True Unparseable\<rparr>)
               = Responds True JsonNull"
    by simp
  from checkConnection_agent_fault [OF b h a] b h show ?thesis by simp
qed

subsection \<open>Session creation\<close>

text \<open>
  Claim C7. When session creation fails (the request is rejected, by a timeout or by a
  transport error, or answered with a non-2xx response), \<open>newChat\<close> leaves the session id
  and the message log as they were and appends no message: nothing changes but the
  record of the request issued and of the alert shown to the user.
\<close>

theorem newChat_failure:
  assumes "chatNew net = Rejects e \<or> chatNew net = Responds False b"
  shows "newChat net s =
           s\<lparr>trace := trace s
                 @ (case getBaseUrl (config s) of Inl x \<Rightarrow> []
                    | Inr base \<Rightarrow> [Fetch \<lparr>verb = POST, url = base @ js ''/api/chat/new'',
                                          body = None\<rparr>])
                 @ [Alerted (js ''Error'') (js ''Failed to start new chat'')]\<rparr>"
  using assms
  by (auto simp add: newChat_def newChat_try_def effect_defs Let_def split: sum.splits)

theorem newChat_failure_witness:
  "chatNew (sample_net\<lparr>chatNew := Rejects AbortError\<rparr>) = Rejects AbortError \<and>
   newChat (sample_net\<lparr>chatNew := Rejects AbortError\<rparr>) sample_session =
     sample_session\<lparr>trace := trace sample_session @
        [Fetch \<lparr>verb = POST, url = js ''http://192.168.1.100:5000'' @ js ''/api/chat/new'',
                body = None\<rparr>,
         Alerted (js ''Error'') (js ''Failed to start new chat'')]\<rparr>"
proof -
  have h: "chatNew (sample_net\<lparr>chatNew := Rejects AbortError\<rparr>) = Rejects AbortError
           \<or> chatNew (sample_net\<lparr>chatNew := Rejects AbortError\<rparr>) = Responds False Unparseable"
    by simp
  have c: "config sample_session = defaultConfig" by (simp add: sample_session_eval)
  from newChat_failure [OF h, of sample_session] show ?thesis
    by (simp add: c getBaseUrl_default)
qed

subsection \<open>Sending: the guards\<close>

text \<open>
  Claim C10. A call of \<open>sendMessage\<close> while \<open>isConnected\<close> is false returns after an alert:
  it issues no request, sets no timer, and leaves the message log, the session id and
  the busy flag (and every other cell of the state) unchanged.
\<close>

theorem sendMessage_not_connected:
  assumes "\<not> isConnected s"
  shows "sendMessage net m f s =
           (s\<lparr>trace := trace s @ [Alerted (js ''Error'') (js ''Not connected to Suna Desktop'')]\<rparr>,
            None)"
  using assms by (simp add: sendMessage_def alert_def)

theorem sendMessage_not_connected_witness:
  "\<not> isConnected initial \<and>
   sendMessage sample_net (js ''hello'') None initial =
     (initial\<lparr>trace := trace initial
                 @ [Alerted (js ''Error'') (js ''Not connected to Suna Desktop'')]\<rparr>, None)"
proof -
  have h: "\<not> isConnected initial" by (simp add: initial_def)
  from sendMessage_not_connected [OF h] h show ?thesis by simp
qed

text \<open>
  Claim C5. A call of \<open>sendMessage\<close> whose argument is empty after trimming, or longer
  than 10000 code units (10001 is rejected), fails locally with an error alert and
  changes nothing else: no request is issued and the message log is unchanged. On a
  connected client the alert is that of the validation that failed; on a client that is
  not connected it is the alert of the connection guard, which comes first.
\<close>

theorem sendMessage_invalid:
  assumes "trim m = [] \<or> length m > 10000"
  shows "sendMessage net m f s =
           (s\<lparr>trace := trace s @
                 [Alerted (js ''Error'')
                    (if \<not> isConnected s then js ''Not connected to Suna Desktop''
                     else if trim m = [] then js ''Message cannot be empty''
                     else js ''Message too long (max 10,000 characters)'')]\<rparr>,
            None)"
  using assms by (auto simp add: sendMessage_def alert_def trim_def)

theorem sendMessage_invalid_witness:
  "length (replicate 10001 (0x61 :: 16 word)) > 10000 \<and> isConnected sample_session \<and>
   sendMessage sample_net (replicate 10001 0x61) None sample_session =
     (sample_session\<lparr>trace := trace sample_session @
         [Alerted (js ''Error'') (js ''Message too long (max 10,000 characters)'')]\<rparr>, None)"
proof -
  have h: "trim (replicate 10001 (0x61 :: 16 word)) = [] \<or> length (replicate 10001 (0x61 :: 16 word)) > 10000"
    by simp
  have c: "isConnected sample_session" by (simp add: sample_session_eval)
  have t: "trim (replicate 10001 (0x61 :: 16 word)) \<noteq> []"
    by (simp add: trim_def isWhiteSpace_def dropWhile_replicate)
  from sendMessage_invalid [OF h, of sample_net None sample_session] c t show ?thesis by simp
qed

text \<open>
  Claim C1, as stated (a call of \<open>sendMessage\<close> made while \<open>isLoading\<close> is true is rejected
  before any request is issued and before any message is appended), fails: \<open>sendMessage\<close>
  never reads \<open>isLoading\<close>. While a first message is in flight, a second call appends its
  user message, issues its send request and appends a second placeholder.
\<close>

theorem sendMessage_while_busy:
  "isLoading sample_busy \<and>
   messages (fst (sendMessage sample_net (js ''second'') None sample_busy)) =
     messages sample_busy @
       [\<lparr>msg_id = [3], role = RUser, content = js ''second'', timestamp = js ''t''\<rparr>,
        \<lparr>msg_id = [4], role = RSystem, content = js ''Suna is thinking...'',
          timestamp = js ''t''\<rparr>] \<and>
   trace (fst (sendMessage sample_net (js ''second'') None sample_busy)) =
     trace sample_busy @
       [Appended \<lparr>msg_id = [3], role = RUser, content = js ''second'', timestamp = js ''t''\<rparr>,
        Fetch \<lparr>verb = POST,
               url = js ''http://192.168.1.100:5000'' @ js ''/api/chat/'' @ js ''c1'' @ js ''/send'',
               body = Some (js ''second'', [])\<rparr>,
        Appended \<lparr>msg_id = [4], role = RSystem, content = js ''Suna is thinking...'',
                  timestamp = js ''t''\<rparr>]"
  by (simp add: sample_busy_eval sample_session_eval run_defs)

text \<open>
  Claim C1, amended. \<open>sendMessage\<close> does not test the busy flag: a call made while
  \<open>isLoading\<close> is true issues the same requests, shows the same alerts, appends the same
  messages and sets the same timer as the same call made while it is false. Sends are
  held back while busy by the chat screen only: its send button is disabled while
  \<open>isLoading\<close> is true, and a press then does nothing.
\<close>

theorem sendMessage_ignores_isLoading:
  "trace (fst (sendMessage net m f (s\<lparr>isLoading := True\<rparr>)))
     = trace (fst (sendMessage net m f (s\<lparr>isLoading := False\<rparr>))) \<and>
   messages (fst (sendMessage net m f (s\<lparr>isLoading := True\<rparr>)))
     = messages (fst (sendMessage net m f (s\<lparr>isLoading := False\<rparr>))) \<and>
   snd (sendMessage net m f (s\<lparr>isLoading := True\<rparr>))
     = snd (sendMessage net m f (s\<lparr>isLoading := False\<rparr>)) \<and>
   pressSend net inputText (s\<lparr>isLoading := True\<rparr>) = (s\<lparr>isLoading := True\<rparr>, None)"
  by (simp add: sendMessage_isLoading pressSend_def sendButtonDisabled_def)

subsection \<open>Sending: session creation\<close>

text \<open>
  A call that passes the guards on a client without a session id issues the
  session-creation request first; the user message is appended and the send request
  issued only after \<open>newChat\<close> has returned, and no other request comes between. The send
  request goes to the session id of the closure, which is the missing one, whatever
  \<open>newChat\<close> has done: the target is \<open>/api/chat/null/send\<close>.
\<close>

lemma sendMessage_without_session:
  assumes "isConnected s" and "trim m \<noteq> []" and "length m \<le> 10000"
    and "falsy (currentChatId s)" and "getBaseUrl (config s) = Inr base"
  shows "\<exists>mid rest.
     trace (fst (sendMessage net m f s)) =
       trace s @ [Fetch \<lparr>verb = POST, url = base @ js ''/api/chat/new'', body = None\<rparr>] @ mid
       @ [Appended (newMessage net RUser m (newChat net s)),
          Fetch \<lparr>verb = POST,
                 url = base @ js ''/api/chat/'' @ render (currentChatId s) @ js ''/send'',
                 body = Some (trim m, (case f of None \<Rightarrow> [] | Some fs \<Rightarrow> fs))\<rparr>] @ rest
     \<and> (\<forall>r. Fetch r \<notin> set mid)"
proof -
  obtain mid where mid: "trace (newChat net s) =
      trace s @ Fetch \<lparr>verb = POST, url = base @ js ''/api/chat/new'', body = None\<rparr> # mid"
    and nof: "\<forall>r. Fetch r \<notin> set mid"
    using newChat_trace [OF assms(5), of net] by blast
  obtain rest where tr: "trace (fst (sendMessage net m f s)) =
       trace (newChat net s) @ Appended (newMessage net RUser m (newChat net s))
       # [Fetch \<lparr>verb = POST,
                url = base @ js ''/api/chat/'' @ render (currentChatId s) @ js ''/send'',
                body = Some (trim m, (case f of None \<Rightarrow> [] | Some fs \<Rightarrow> fs))\<rparr>] @ rest"
    using sendMessage_obs [OF assms(1-3), of net f] assms(4,5) by auto
  from mid nof tr show ?thesis by auto
qed

text \<open>
  Also after a successful creation: the state holds the new session id \<open>c1\<close>, and the
  message has been sent to session \<open>null\<close>.
\<close>

lemma sendMessage_after_creation:
  "currentChatId (fst (sendMessage sample_net (js ''hello'') None sample_connected))
     = Some (js ''c1'') \<and>
   trace (fst (sendMessage sample_net (js ''hello'') None sample_connected)) =
     trace sample_connected @
       [Fetch \<lparr>verb = POST, url = js ''http://192.168.1.100:5000'' @ js ''/api/chat/new'',
               body = None\<rparr>,
        Appended \<lparr>msg_id = [0], role = RSystem, content = js ''New conversation started!'',
                  timestamp = js ''t''\<rparr>,
        Appended \<lparr>msg_id = [1], role = RUser, content = js ''hello'', timestamp = js ''t''\<rparr>,
        Fetch \<lparr>verb = POST,
               url = js ''http://192.168.1.100:5000'' @ js ''/api/chat/'' @ js ''null'' @ js ''/send'',
               body = Some (js ''hello'', [])\<rparr>,
        Appended \<lparr>msg_id = [2], role = RSystem, content = js ''Suna is thinking...'',
                  timestamp = js ''t''\<rparr>]"
  by (simp add: sample_connected_eval run_defs)

text \<open>
  Claim C3 (on a client without a session id, session creation comes before the send
  request, and a failed creation aborts the dispatch: no user message, no send request)
  does not hold of the code. \<open>newChat\<close> handles its own failure with an alert and returns
  normally, and \<open>sendMessage\<close>, which awaits it in order to have a session to send to,
  goes on without one. Here the client has no session and the creation request times
  out: after the alert the user message is appended, the send request is issued, to
  \<open>/api/chat/null/send\<close>, and the placeholder is appended.
\<close>

theorem sendMessage_after_failed_creation:
  "currentChatId sample_connected = None \<and>
   chatNew (sample_net\<lparr>chatNew := Rejects AbortError\<rparr>) = Rejects AbortError \<and>
   messages (fst (sendMessage (sample_net\<lparr>chatNew := Rejects AbortError\<rparr>) (js ''hello'') None
                    sample_connected)) =
     [\<lparr>msg_id = [0], role = RUser, content = js ''hello'', timestamp = js ''t''\<rparr>,
      \<lparr>msg_id = [1], role = RSystem, content = js ''Suna is thinking...'', timestamp = js ''t''\<rparr>] \<and>
   trace (fst (sendMessage (sample_net\<lparr>chatNew := Rejects AbortError\<rparr>) (js ''hello'') None
                 sample_connected)) =
     trace sample_connected @
       [Fetch \<lparr>verb = POST, url = js ''http://192.168.1.100:5000'' @ js ''/api/chat/new'',
               body = None\<rparr>,
        Alerted (js ''Error'') (js ''Failed to start new chat''),
        Appended \<lparr>msg_id = [0], role = RUser, content = js ''hello'', timestamp = js ''t''\<rparr>,
        Fetch \<lparr>verb = POST,
               url = js ''http://192.168.1.100:5000'' @ js ''/api/chat/'' @ js ''null'' @ js ''/send'',
               body = Some (js ''hello'', [])\<rparr>,
        Appended \<lparr>msg_id = [1], role = RSystem, content = js ''Suna is thinking...'',
                  timestamp = js ''t''\<rparr>]"
  by (simp add: sample_connected_eval run_defs)

subsection \<open>Sending: the user message\<close>




subsection \<open>Sending: the placeholder\<close>

text \<open>
  When the fetch of the messages delivers a body, the dispatch ends with the provider
  unmounted; the log last committed ends with the placeholder and the busy flag is
  still set.
\<close>

lemma dispatch_resolved:
  "dispatch sample_net (js ''hi'') None sample_session =
     Unmounted (sample_session\<lparr>
       messages := messages sample_session @
         [\<lparr>msg_id = [1], role = RUser, content = js ''hi'', timestamp = js ''t''\<rparr>,
          \<lparr>msg_id = [2], role = RSystem, content = js ''Suna is thinking...'',
            timestamp = js ''t''\<rparr>],
       isLoading := True,
       trace := trace sample_session @
         [Appended \<lparr>msg_id = [1], role = RUser, content = js ''hi'', timestamp = js ''t''\<rparr>,
          Fetch \<lparr>verb = POST,
                 url = js ''http://192.168.1.100:5000'' @ js ''/api/chat/'' @ js ''c1'' @ js ''/send'',
                 body = Some (js ''hi'', [])\<rparr>,
          Appended \<lparr>msg_id = [2], role = RSystem, content = js ''Suna is thinking...'',
                    timestamp = js ''t''\<rparr>,
          Fetch \<lparr>verb = GET,
                 url = js ''http://192.168.1.100:5000'' @ js ''/api/chat/'' @ js ''c1''
                       @ js ''/messages'',
                 body = None\<rparr>],
       added := 3\<rparr>)"
  by (simp add: sample_session_eval run_defs)

text \<open>
  Claim C2 (the placeholder \<open>Suna is thinking...\<close> is removed exactly once in each of the
  three terminal branches) does not hold of the code. The handler of the timer callback
  has no removal, and the removal of the successful branch compares with \<open>loadingId\<close>,
  which is undefined since \<open>addMessage\<close> returns nothing. Here the send is accepted and
  the fetch of the messages times out: the dispatch ends with the busy flag cleared and
  the placeholder still in the log, before the \<open>error\<close> message of the timeout.
\<close>

theorem placeholder_left_after_timeout:
  "is_Mounted (dispatch (sample_net\<lparr>chatMessages := Rejects AbortError\<rparr>) (js ''hi'') None
                 sample_session) \<and>
   map (\<lambda>x. (role x, content x))
     (messages (committed (dispatch (sample_net\<lparr>chatMessages := Rejects AbortError\<rparr>) (js ''hi'')
                  None sample_session))) =
     [(RSystem, js ''New conversation started!''), (RUser, js ''hi''),
      (RSystem, js ''Suna is thinking...''), (RError, js ''Response timed out'')] \<and>
   \<not> isLoading (committed (dispatch (sample_net\<lparr>chatMessages := Rejects AbortError\<rparr>) (js ''hi'')
                   None sample_session))"
  by (simp add: sample_session_eval run_defs)

end
